theory Spec2Isabelle
  imports Complex_Main "HOL-Library.Sublist"
begin

chapter \<open>Definitions: the embedded program\<close>

section \<open>Shared vocabulary: errors, trace events, hexadecimal handles\<close>

text \<open>
  Python exceptions that the modelled functions can raise are values of \<open>py_error\<close>;
  a function that can raise returns \<open>py_error + 'a\<close> with \<open>Inl\<close> for the exception.
\<close>

datatype py_error =
    KeyError string
  | AttributeError string
  | OverflowError
  | ValueError
  | CallbackRaised string

text \<open>
  \<open>trace_logger.log_event(kind, fields, context_key)\<close> appends one record to a global,
  append-only log. An event is its kind with its fields in the order the source writes them;
  a function of the model returns the events it logged, in order.
\<close>

datatype fval = FStr string | FInt int

type_synonym event = "string \<times> (string \<times> fval) list"

definition kinds :: "event list \<Rightarrow> string list" where
  "kinds tr = map fst tr"

text \<open>The format \<open>f"0x{h:X}"\<close>: upper-case hexadecimal, a minus sign for a negative integer.\<close>

definition hex_digit :: "nat \<Rightarrow> char" where
  "hex_digit d = ''0123456789ABCDEF'' ! d"

function hex_nat :: "nat \<Rightarrow> string" where
  "hex_nat n = (if n < 16 then [hex_digit n] else hex_nat (n div 16) @ [hex_digit (n mod 16)])"
  by pat_completeness auto
termination
  by (relation "measure (\<lambda>n. n)") auto

declare hex_nat.simps [simp del]

definition hexX :: "int \<Rightarrow> string" where
  "hexX h = (if h < 0 then CHR ''-'' # hex_nat (nat (- h)) else hex_nat (nat h))"

definition hex0x :: "int \<Rightarrow> string" where
  "hex0x h = ''0x'' @ hexX h"

text \<open>
  A Python \<open>dict\<close> keeps insertion order and is iterated in that order, so the handle tables
  are association lists: assigning to an existing key keeps its position, a new key goes last.
\<close>

fun dict_set :: "'k \<Rightarrow> 'v \<Rightarrow> ('k \<times> 'v) list \<Rightarrow> ('k \<times> 'v) list" where
  "dict_set k v [] = [(k, v)]"
| "dict_set k v ((k', v') # kvs) =
     (if k' = k then (k, v) # kvs else (k', v') # dict_set k v kvs)"

definition dict_keys :: "('k \<times> 'v) list \<Rightarrow> 'k list" where
  "dict_keys d = map fst d"

text \<open>\<open>k in d\<close> followed by \<open>d[k]\<close>, for a key that may be \<open>None\<close> (never a key of the tables).\<close>

definition lookup_opt :: "('k \<times> 'v) list \<Rightarrow> 'k option \<Rightarrow> ('k \<times> 'v) option" where
  "lookup_opt d ko =
     (case ko of None \<Rightarrow> None
      | Some k \<Rightarrow> (case map_of d k of None \<Rightarrow> None | Some v \<Rightarrow> Some (k, v)))"

section \<open>Quality-of-service profiles (dataTypes and policies)\<close>

text \<open>The enums of \<open>dataTypes\<close> (the inner, RMW-side representation).\<close>

datatype QoSReliabilityPolicy = RELIABLE | BEST_EFFORT
datatype QoSDurabilityPolicy = VOLATILE | TRANSIENT_LOCAL | TRANSIENT | PERSISTENT
datatype QoSHistoryPolicy = KEEP_LAST | KEEP_ALL

text \<open>The enums of \<open>policies\<close> (the lower, DDS-side representation), imported by the source as
  \<open>DDSReliability\<close>, \<open>DDSDurability\<close> and \<open>DDSHistory\<close>.\<close>

datatype DDSReliability = DDS_RELIABLE | DDS_BEST_EFFORT
datatype DDSDurability = DDS_VOLATILE | DDS_TRANSIENT_LOCAL | DDS_TRANSIENT | DDS_PERSISTENT
datatype DDSHistory = DDS_KEEP_LAST | DDS_KEEP_ALL

text \<open>
  A Python float or \<open>None\<close> in a \<open>deadline_ms\<close> / \<open>lifespan_ms\<close> field. Finite floats are
  modelled as reals (rounding is outside the model); the three special floats are kept apart
  because \<open>int()\<close> raises on them.
\<close>

datatype ms_val = MsNone | MsInf | MsNegInf | MsNaN | MsFin real

record RMWQoSProfile =
  reliability :: QoSReliabilityPolicy
  durability :: QoSDurabilityPolicy
  history :: QoSHistoryPolicy
  depth :: int
  deadline_ms :: ms_val
  lifespan_ms :: ms_val

record DDSQoSProfile =
  dds_reliability :: DDSReliability
  dds_durability :: DDSDurability
  dds_history :: DDSHistory
  dds_depth :: int
  dds_deadline :: "int option"
  dds_lifespan :: "int option"
  dds_partition :: "string list"

text \<open>A value passed where the source declares \<open>qos: Any\<close> and dispatches with \<open>isinstance\<close>.\<close>

datatype qos_arg = QosRMW RMWQoSProfile | QosDDS DDSQoSProfile | QosOther

section \<open>Messages and callbacks\<close>

record Message =
  msg_id :: int
  msg_topic :: string
  msg_qos_profile :: "RMWQoSProfile option"

text \<open>
  A user callback is opaque code. The model keeps what the layers can observe of it: called
  on a message it either returns (\<open>None\<close>) or raises an exception with a text (\<open>Some e\<close>).
\<close>

type_synonym callback = "Message \<Rightarrow> string option"

section \<open>Timers (timer.py)\<close>

text \<open>
  Every \<open>time.time()\<close> call reads the wall clock. The clock is the function \<open>clk\<close> from the
  number of readings taken so far to the value read; a function that reads the clock takes
  the current count and returns the new one.
\<close>

type_synonym clock = "nat \<Rightarrow> real"

record Timer =
  period :: real
  last_trigger_time :: real

definition Timer_init :: "clock \<Rightarrow> nat \<Rightarrow> real \<Rightarrow> Timer \<times> nat" where
  "Timer_init clk n p = (\<lparr>period = max 0.001 p, last_trigger_time = clk n\<rparr>, Suc n)"

definition is_ready :: "clock \<Rightarrow> nat \<Rightarrow> Timer \<Rightarrow> bool \<times> nat" where
  "is_ready clk n t = (clk n \<ge> last_trigger_time t + period t, Suc n)"

definition trigger :: "clock \<Rightarrow> nat \<Rightarrow> Timer \<Rightarrow> Timer \<times> nat" where
  "trigger clk n t = (t\<lparr>last_trigger_time := clk n\<rparr>, Suc n)"

definition get_time_until_next :: "clock \<Rightarrow> nat \<Rightarrow> Timer \<Rightarrow> real \<times> nat" where
  "get_time_until_next clk n t =
     (max 0 (last_trigger_time t + period t - clk n), Suc n)"

text \<open>\<open>TimerManager.timers\<close> is a dict from timer id to \<open>Timer\<close>.\<close>

type_synonym TimerManager = "(int \<times> Timer) list"

definition add_timer :: "clock \<Rightarrow> nat \<Rightarrow> TimerManager \<Rightarrow> int \<Rightarrow> real \<Rightarrow> TimerManager \<times> nat" where
  "add_timer clk n tm timer_id p =
     (case Timer_init clk n p of (t, n') \<Rightarrow> (dict_set timer_id t tm, n'))"

text \<open>\<open>get_expired_timers\<close>: one clock reading per timer, in table order.\<close>

fun get_expired_timers :: "clock \<Rightarrow> nat \<Rightarrow> TimerManager \<Rightarrow> int list \<times> nat" where
  "get_expired_timers clk n [] = ([], n)"
| "get_expired_timers clk n ((timer_id, t) # tm) =
     (case is_ready clk n t of (r, n') \<Rightarrow>
        (case get_expired_timers clk n' tm of (expired, n'') \<Rightarrow>
           (if r then timer_id # expired else expired, n'')))"

text \<open>The loop of \<open>update\<close>: trigger each expired id that is still in the table.\<close>

fun trigger_all :: "clock \<Rightarrow> nat \<Rightarrow> TimerManager \<Rightarrow> int list \<Rightarrow> TimerManager \<times> nat" where
  "trigger_all clk n tm [] = (tm, n)"
| "trigger_all clk n tm (timer_id # expired) =
     (case map_of tm timer_id of
        None \<Rightarrow> trigger_all clk n tm expired
      | Some t \<Rightarrow>
          (case trigger clk n t of (t', n') \<Rightarrow>
             trigger_all clk n' (dict_set timer_id t' tm) expired))"

definition update :: "clock \<Rightarrow> nat \<Rightarrow> TimerManager \<Rightarrow> TimerManager \<times> nat" where
  "update clk n tm =
     (case get_expired_timers clk n tm of (expired, n') \<Rightarrow> trigger_all clk n' tm expired)"

section \<open>The RMW layer (rmw_layer.py)\<close>

record RMWPublisher =
  pub_handle :: int
  pub_topic :: string
  pub_type_name :: string
  pub_qos :: RMWQoSProfile
  dds_writer_guid :: "string option"
  pub_node_name :: string

record RMWSubscription =
  sub_handle :: int
  sub_topic :: string
  sub_type_name :: string
  sub_qos :: RMWQoSProfile
  dds_reader_guid :: "string option"
  sub_node_name :: string
  sub_callback :: "callback option"

text \<open>The operation dictionaries that arrive on \<open>rcl_pub_in\<close>; \<open>op.get\<close> keys are optional.\<close>

datatype rmw_op =
    Rmw_create_publisher string "string option" qos_arg "string option"
  | Rmw_create_subscription string "string option" qos_arg "string option" "callback option"
  | Rmw_publish Message
  | Rmw_other string

record RMWState =
  rmw_initialized :: bool
  rmw_publishers :: "(int \<times> RMWPublisher) list"
  rmw_subscriptions :: "(int \<times> RMWSubscription) list"
  rmw_pending_operations :: "rmw_op list"
  rmw_handle_counter :: int

definition rmw_initial_state :: RMWState where
  "rmw_initial_state =
     \<lparr>rmw_initialized = False, rmw_publishers = [], rmw_subscriptions = [],
      rmw_pending_operations = [], rmw_handle_counter = 1000\<rparr>"

definition rmw_next_handle :: "RMWState \<Rightarrow> int \<times> RMWState" where
  "rmw_next_handle s =
     (rmw_handle_counter s, s\<lparr>rmw_handle_counter := rmw_handle_counter s + 1\<rparr>)"

subsection \<open>QoS coercion\<close>

text \<open>
  Both conversions go through the \<open>.value\<close> of the enum members and look it up in a literal
  dictionary, with a default for a value that is not a key. The enum classes are declared in
  \<open>dataTypes\<close> and \<open>policies\<close>, outside the source at hand, so their \<open>.value\<close> tables are a
  parameter of the conversions.
\<close>

record enum_values =
  rmw_rel_value :: "QoSReliabilityPolicy \<Rightarrow> string"
  rmw_dur_value :: "QoSDurabilityPolicy \<Rightarrow> string"
  rmw_hist_value :: "QoSHistoryPolicy \<Rightarrow> string"
  dds_rel_value :: "DDSReliability \<Rightarrow> string"
  dds_dur_value :: "DDSDurability \<Rightarrow> string"
  dds_hist_value :: "DDSHistory \<Rightarrow> string"

definition dict_get :: "('k \<times> 'v) list \<Rightarrow> 'k \<Rightarrow> 'v \<Rightarrow> 'v" where
  "dict_get d k dflt = (case map_of d k of None \<Rightarrow> dflt | Some v \<Rightarrow> v)"

text \<open>\<open>int(x)\<close> on a finite float truncates toward zero.\<close>

definition py_int :: "real \<Rightarrow> int" where
  "py_int x = (if x \<ge> 0 then \<lfloor>x\<rfloor> else \<lceil>x\<rceil>)"

text \<open>
  \<open>None if v in (None, float('inf')) else int(v * 1e6)\<close>; \<open>int\<close> raises \<open>OverflowError\<close> on
  minus infinity and \<open>ValueError\<close> on a NaN.
\<close>

definition ms_to_ns :: "ms_val \<Rightarrow> py_error + int option" where
  "ms_to_ns v =
     (case v of
        MsNone \<Rightarrow> Inr None
      | MsInf \<Rightarrow> Inr None
      | MsNegInf \<Rightarrow> Inl OverflowError
      | MsNaN \<Rightarrow> Inl ValueError
      | MsFin x \<Rightarrow> Inr (Some (py_int (x * 1000000))))"

definition to_dds_qos :: "enum_values \<Rightarrow> RMWQoSProfile \<Rightarrow> py_error + DDSQoSProfile" where
  "to_dds_qos ev rmw_qos =
     (let rel_value = rmw_rel_value ev (reliability rmw_qos);
          dur_value = rmw_dur_value ev (durability rmw_qos);
          hist_value = rmw_hist_value ev (history rmw_qos);
          rel_map = [(''RELIABLE'', DDS_RELIABLE), (''BEST_EFFORT'', DDS_BEST_EFFORT)];
          dur_map = [(''VOLATILE'', DDS_VOLATILE), (''TRANSIENT_LOCAL'', DDS_TRANSIENT_LOCAL),
                     (''TRANSIENT'', DDS_TRANSIENT), (''PERSISTENT'', DDS_PERSISTENT)];
          hist_map = [(''KEEP_LAST'', DDS_KEEP_LAST), (''KEEP_ALL'', DDS_KEEP_ALL)]
      in case ms_to_ns (deadline_ms rmw_qos) of
           Inl e \<Rightarrow> Inl e
         | Inr deadline_ns \<Rightarrow>
             (case ms_to_ns (lifespan_ms rmw_qos) of
                Inl e \<Rightarrow> Inl e
              | Inr lifespan_ns \<Rightarrow>
                  Inr \<lparr>dds_reliability = dict_get rel_map rel_value DDS_RELIABLE,
                       dds_durability = dict_get dur_map dur_value DDS_VOLATILE,
                       dds_history = dict_get hist_map hist_value DDS_KEEP_LAST,
                       dds_depth = depth rmw_qos,
                       dds_deadline = deadline_ns,
                       dds_lifespan = lifespan_ns,
                       dds_partition = []\<rparr>))"

text \<open>The fallback \<open>DDSQoSProfile()\<close> is the default profile of \<open>policies\<close>, a parameter.\<close>

definition coerce_to_dds_qos ::
  "enum_values \<Rightarrow> DDSQoSProfile \<Rightarrow> qos_arg \<Rightarrow> py_error + DDSQoSProfile" where
  "coerce_to_dds_qos ev dds_default qos =
     (case qos of
        QosDDS q \<Rightarrow> Inr q
      | QosRMW q \<Rightarrow> to_dds_qos ev q
      | QosOther \<Rightarrow> Inr dds_default)"

text \<open>\<open>float('inf') if v is None else v / 1e6\<close>.\<close>

definition ns_to_ms :: "int option \<Rightarrow> ms_val" where
  "ns_to_ms v = (case v of None \<Rightarrow> MsInf | Some n \<Rightarrow> MsFin (real_of_int n / 1000000))"

definition default_rmw_qos :: RMWQoSProfile where
  "default_rmw_qos =
     \<lparr>reliability = RELIABLE, durability = VOLATILE, history = KEEP_LAST, depth = 10,
      deadline_ms = MsInf, lifespan_ms = MsInf\<rparr>"

definition coerce_to_rmw_qos :: "enum_values \<Rightarrow> qos_arg \<Rightarrow> RMWQoSProfile" where
  "coerce_to_rmw_qos ev qos =
     (case qos of
        QosRMW q \<Rightarrow> q
      | QosDDS q \<Rightarrow>
          (let rel_map = [(''reliable'', RELIABLE), (''best_effort'', BEST_EFFORT)];
               dur_map = [(''volatile'', VOLATILE), (''transient_local'', TRANSIENT_LOCAL),
                          (''transient'', TRANSIENT), (''persistent'', PERSISTENT)];
               history_map = [(''keep_last'', KEEP_LAST), (''keep_all'', KEEP_ALL)]
           in \<lparr>reliability = dict_get rel_map (dds_rel_value ev (dds_reliability q)) RELIABLE,
               durability = dict_get dur_map (dds_dur_value ev (dds_durability q)) VOLATILE,
               history = dict_get history_map (dds_hist_value ev (dds_history q)) KEEP_LAST,
               depth = dds_depth q,
               deadline_ms = ns_to_ms (dds_deadline q),
               lifespan_ms = ns_to_ms (dds_lifespan q)\<rparr>)
      | QosOther \<Rightarrow> default_rmw_qos)"


text \<open>The \<open>.value\<close> tables under which the literal dictionaries of both conversions are total.\<close>

definition keyed_values :: enum_values where
  "keyed_values =
     \<lparr>rmw_rel_value = (\<lambda>r. case r of RELIABLE \<Rightarrow> ''RELIABLE'' | BEST_EFFORT \<Rightarrow> ''BEST_EFFORT''),
      rmw_dur_value = (\<lambda>d. case d of VOLATILE \<Rightarrow> ''VOLATILE''
                                | TRANSIENT_LOCAL \<Rightarrow> ''TRANSIENT_LOCAL''
                                | TRANSIENT \<Rightarrow> ''TRANSIENT'' | PERSISTENT \<Rightarrow> ''PERSISTENT''),
      rmw_hist_value = (\<lambda>h. case h of KEEP_LAST \<Rightarrow> ''KEEP_LAST'' | KEEP_ALL \<Rightarrow> ''KEEP_ALL''),
      dds_rel_value = (\<lambda>r. case r of DDS_RELIABLE \<Rightarrow> ''reliable''
                                | DDS_BEST_EFFORT \<Rightarrow> ''best_effort''),
      dds_dur_value = (\<lambda>d. case d of DDS_VOLATILE \<Rightarrow> ''volatile''
                                | DDS_TRANSIENT_LOCAL \<Rightarrow> ''transient_local''
                                | DDS_TRANSIENT \<Rightarrow> ''transient'' | DDS_PERSISTENT \<Rightarrow> ''persistent''),
      dds_hist_value = (\<lambda>h. case h of DDS_KEEP_LAST \<Rightarrow> ''keep_last''
                                 | DDS_KEEP_ALL \<Rightarrow> ''keep_all'')\<rparr>"




subsection \<open>Entity creation and publishing\<close>

text \<open>
  \<open>create_writer\<close> and \<open>create_reader\<close> belong to the DDS participant, outside the source at
  hand; the guid of the entity they return is given by the parameters \<open>writer_guid\<close> and
  \<open>reader_guid\<close>. A graph event is built by \<open>_generate_graph_event\<close> and returned to the
  caller, which drops it.
\<close>

type_synonym rmw_result = "RMWState \<times> event list"

definition rmw_create_publisher ::
  "enum_values \<Rightarrow> DDSQoSProfile \<Rightarrow> (string \<Rightarrow> string \<Rightarrow> DDSQoSProfile \<Rightarrow> string) \<Rightarrow> RMWState \<Rightarrow>
     string \<Rightarrow> string option \<Rightarrow> qos_arg \<Rightarrow> string option \<Rightarrow> py_error + rmw_result" where
  "rmw_create_publisher ev dds_default writer_guid s topic type_name qos node_name =
     (let (handle, s1) = rmw_next_handle s;
          pub = \<lparr>pub_handle = handle, pub_topic = topic,
                 pub_type_name = (case type_name of None \<Rightarrow> ''std_msgs/String'' | Some t \<Rightarrow> t),
                 pub_qos = coerce_to_rmw_qos ev qos, dds_writer_guid = None,
                 pub_node_name = (case node_name of None \<Rightarrow> [] | Some n \<Rightarrow> n)\<rparr>
      in case coerce_to_dds_qos ev dds_default (QosRMW (pub_qos pub)) of
           Inl e \<Rightarrow> Inl e
         | Inr dq \<Rightarrow>
             (let pub' = pub\<lparr>dds_writer_guid := Some (writer_guid (pub_topic pub) (pub_type_name pub) dq)\<rparr>;
                  s2 = s1\<lparr>rmw_publishers := dict_set handle pub' (rmw_publishers s1)\<rparr>;
                  e = (''rmw_publisher_init'',
                       [(''handle'', FInt handle), (''topic'', FStr (pub_topic pub)),
                        (''node'', FStr (pub_node_name pub))])
              in Inr (s2, [e, e])))"

definition rmw_create_subscription ::
  "enum_values \<Rightarrow> DDSQoSProfile \<Rightarrow> (string \<Rightarrow> string \<Rightarrow> DDSQoSProfile \<Rightarrow> string) \<Rightarrow> RMWState \<Rightarrow>
     string \<Rightarrow> string option \<Rightarrow> qos_arg \<Rightarrow> string option \<Rightarrow> callback option \<Rightarrow>
     py_error + rmw_result" where
  "rmw_create_subscription ev dds_default reader_guid s topic type_name qos node_name cb =
     (let (handle, s1) = rmw_next_handle s;
          sub = \<lparr>sub_handle = handle, sub_topic = topic,
                 sub_type_name = (case type_name of None \<Rightarrow> ''std_msgs/String'' | Some t \<Rightarrow> t),
                 sub_qos = coerce_to_rmw_qos ev qos, dds_reader_guid = None,
                 sub_node_name = (case node_name of None \<Rightarrow> [] | Some n \<Rightarrow> n),
                 sub_callback = cb\<rparr>
      in case coerce_to_dds_qos ev dds_default (QosRMW (sub_qos sub)) of
           Inl e \<Rightarrow> Inl e
         | Inr dq \<Rightarrow>
             (let sub' = sub\<lparr>dds_reader_guid := Some (reader_guid (sub_topic sub) (sub_type_name sub) dq)\<rparr>;
                  s2 = s1\<lparr>rmw_subscriptions := dict_set handle sub' (rmw_subscriptions s1)\<rparr>
              in Inr (s2,
                      [(''rmw_subscription_init'',
                        [(''handle'', FInt handle), (''topic'', FStr (sub_topic sub)),
                         (''node'', FStr (sub_node_name sub))])])))"

text \<open>
  \<open>_publish\<close>: the first publisher on the message's topic; the serialized size comes from
  the type registry (parameter \<open>size_bytes\<close>), the write goes to the participant.
\<close>

definition rmw_publish :: "(Message \<Rightarrow> int) \<Rightarrow> RMWState \<Rightarrow> Message \<Rightarrow> rmw_result" where
  "rmw_publish size_bytes s msg =
     (case find (\<lambda>(h, pub). pub_topic pub = msg_topic msg) (rmw_publishers s) of
        None \<Rightarrow> (s, [])
      | Some (h, pub) \<Rightarrow>
          (s, [(''rmw_publish'',
                [(''message_id'', FInt (msg_id msg)), (''topic'', FStr (msg_topic msg)),
                 (''size'', FInt (size_bytes msg))])]))"

text \<open>The dispatch of \<open>outputFnc\<close> on the first pending operation.\<close>

fun rmw_process_operation ::
  "enum_values \<Rightarrow> DDSQoSProfile \<Rightarrow> (string \<Rightarrow> string \<Rightarrow> DDSQoSProfile \<Rightarrow> string) \<Rightarrow>
     (string \<Rightarrow> string \<Rightarrow> DDSQoSProfile \<Rightarrow> string) \<Rightarrow> (Message \<Rightarrow> int) \<Rightarrow> RMWState \<Rightarrow> rmw_op \<Rightarrow>
     py_error + rmw_result" where
  "rmw_process_operation ev dd wg rg sz s (Rmw_create_publisher topic ty qos node) =
     rmw_create_publisher ev dd wg s topic ty qos node"
| "rmw_process_operation ev dd wg rg sz s (Rmw_create_subscription topic ty qos node cb) =
     rmw_create_subscription ev dd rg s topic ty qos node cb"
| "rmw_process_operation ev dd wg rg sz s (Rmw_publish msg) = Inr (rmw_publish sz s msg)"
| "rmw_process_operation ev dd wg rg sz s (Rmw_other ty) = Inr (s, [])"

subsection \<open>Inbound data and delivery gating\<close>

definition check_qos_delivery :: "Message \<Rightarrow> RMWSubscription \<Rightarrow> bool \<times> string" where
  "check_qos_delivery msg sub =
     (case msg_qos_profile msg of
        None \<Rightarrow> (True, [])
      | Some pq \<Rightarrow>
          if reliability (sub_qos sub) = RELIABLE \<and> reliability pq \<noteq> RELIABLE
          then (False, ''reliability mismatch'')
          else if durability (sub_qos sub) = TRANSIENT_LOCAL \<and> durability pq = VOLATILE
          then (False, ''durability mismatch'')
          else (True, []))"

text \<open>
  What a delivery leaves behind: the trace events, and the callback invocations as pairs of
  the subscription's handle and the message.
\<close>

type_synonym delivery = "event list \<times> (int \<times> Message) list"

definition take_event :: "string \<Rightarrow> Message \<Rightarrow> RMWSubscription \<Rightarrow> event" where
  "take_event kind msg subscription =
     (kind, [(''message_id'', FInt (msg_id msg)), (''topic'', FStr (sub_topic subscription))])"

definition on_dds_data_available :: "RMWSubscription \<Rightarrow> Message \<Rightarrow> delivery" where
  "on_dds_data_available subscription msg =
     (case sub_callback subscription of
        None \<Rightarrow>
          ([take_event ''rmw_take'' msg subscription, take_event ''rcl_take'' msg subscription,
            take_event ''rcl_take'' msg subscription], [])
      | Some cb \<Rightarrow>
          ([take_event ''rmw_take'' msg subscription, take_event ''rcl_take'' msg subscription]
           @ (case cb msg of
                None \<Rightarrow> []
              | Some e \<Rightarrow> [(''rmw_subscription_callback_error'',
                            [(''error'', FStr e), (''topic'', FStr (sub_topic subscription))])])
           @ [take_event ''rcl_take'' msg subscription],
           [(sub_handle subscription, msg)]))"

text \<open>\<open>_handle_dds_data\<close>: every subscription on the topic takes the data.\<close>

fun handle_dds_data :: "(int \<times> RMWSubscription) list \<Rightarrow> string \<Rightarrow> Message \<Rightarrow> delivery" where
  "handle_dds_data [] topic data_msg = ([], [])"
| "handle_dds_data ((h, sub) # subs) topic data_msg =
     (if sub_topic sub = topic then
        (case on_dds_data_available sub data_msg of (evs, calls) \<Rightarrow>
           (case handle_dds_data subs topic data_msg of (evs', calls') \<Rightarrow>
              (evs @ evs', calls @ calls')))
      else handle_dds_data subs topic data_msg)"

text \<open>
  \<open>_handle_dds_response\<close>, the loop of the \<open>'data'\<close> branch: \<open>response['message']\<close> is read
  inside the loop, for a subscription on the topic, and raises \<open>KeyError\<close> when absent.
\<close>

definition qos_incompatible_event :: "string \<Rightarrow> string \<Rightarrow> event" where
  "qos_incompatible_event topic reason =
     (''rmw_qos_incompatible'', [(''topic'', FStr topic), (''reason'', FStr reason)])"

fun handle_dds_response_loop ::
  "(int \<times> RMWSubscription) list \<Rightarrow> string \<Rightarrow> Message option \<Rightarrow> py_error + delivery" where
  "handle_dds_response_loop [] topic message = Inr ([], [])"
| "handle_dds_response_loop ((h, sub) # subs) topic message =
     (if sub_topic sub = topic then
        (case message of
           None \<Rightarrow> Inl (KeyError ''message'')
         | Some msg \<Rightarrow>
             (let (compatible, reason) = check_qos_delivery msg sub;
                  (evs, calls) = (if compatible then on_dds_data_available sub msg
                                  else ([qos_incompatible_event topic reason], []))
              in case handle_dds_response_loop subs topic message of
                   Inl e \<Rightarrow> Inl e
                 | Inr (evs', calls') \<Rightarrow> Inr (evs @ evs', calls @ calls')))
      else handle_dds_response_loop subs topic message)"

text \<open>A dictionary arriving on \<open>dds_in\<close>, by the keys the layer looks at.\<close>

record dds_dict =
  d_type :: "string option"
  d_topic :: "string option"
  d_data :: "Message option"
  d_message :: "Message option"

datatype dds_in = DDSDict dds_dict | DDSNotDict

definition handle_dds_response :: "RMWState \<Rightarrow> dds_in \<Rightarrow> py_error + delivery" where
  "handle_dds_response s dds_msg =
     (case dds_msg of
        DDSNotDict \<Rightarrow> Inl (AttributeError ''get'')
      | DDSDict response \<Rightarrow>
          if d_type response = Some ''data'' then
            (case d_topic response of
               None \<Rightarrow> Inr ([], [])
             | Some topic \<Rightarrow>
                 handle_dds_response_loop (rmw_subscriptions s) topic (d_message response))
          else Inr ([], []))"

text \<open>
  The \<open>dds_in\<close> branch of \<open>extTransition\<close>: a dictionary with the keys \<open>'data'\<close> and \<open>'topic'\<close>
  goes to \<open>_handle_dds_data\<close>, anything else to \<open>_handle_dds_response\<close>.
\<close>

definition rmw_dds_in :: "RMWState \<Rightarrow> dds_in \<Rightarrow> py_error + delivery" where
  "rmw_dds_in s dds_msg =
     (case dds_msg of
        DDSDict d \<Rightarrow>
          (case (d_data d, d_topic d) of
             (Some data_msg, Some topic) \<Rightarrow> Inr (handle_dds_data (rmw_subscriptions s) topic data_msg)
           | _ \<Rightarrow> handle_dds_response s dds_msg)
      | DDSNotDict \<Rightarrow> handle_dds_response s dds_msg)"

record rmw_inputs =
  rcl_pub_in :: "rmw_op option"
  dds_in_port :: "dds_in option"

definition rmw_extTransition :: "RMWState \<Rightarrow> rmw_inputs \<Rightarrow> py_error + (RMWState \<times> delivery)" where
  "rmw_extTransition s inputs =
     (let s1 = (case rcl_pub_in inputs of
                  None \<Rightarrow> s
                | Some cmd \<Rightarrow> s\<lparr>rmw_pending_operations := rmw_pending_operations s @ [cmd]\<rparr>)
      in case dds_in_port inputs of
           None \<Rightarrow> Inr (s1, ([], []))
         | Some dds_msg \<Rightarrow>
             (case rmw_dds_in s1 dds_msg of Inl e \<Rightarrow> Inl e | Inr d \<Rightarrow> Inr (s1, d)))"

section \<open>The RCL layer (rcl_layer.py)\<close>

record NodeHandle =
  nh_name :: string
  nh_namespace :: string
  nh_handle_id :: int
  nh_context_handle :: int

text \<open>
  The publisher and subscription handles keep the requested profile as it was passed: the
  conversion \<open>qos.to_rmw_qos()\<close> belongs to \<open>policies\<close>, and no modelled operation reads the
  stored profile.
\<close>

record PublisherHandle =
  ph_node_handle :: NodeHandle
  ph_topic :: string
  ph_qos_profile :: "qos_arg option"
  ph_handle_id :: int

record SubscriptionHandle =
  sh_node_handle :: NodeHandle
  sh_topic :: string
  sh_qos_profile :: "qos_arg option"
  sh_handle_id :: int
  sh_callback :: "callback option"

record TimerHandle =
  th_node_handle :: NodeHandle
  th_period_ns :: int
  th_callback :: "callback option"
  th_handle_id :: int

record GuardConditionHandle =
  gc_handle_id :: int
  gc_callback :: "callback option"

record WaitSet =
  ws_subscriptions :: "SubscriptionHandle list"
  ws_timers :: "TimerHandle list"
  ws_guard_conditions :: "GuardConditionHandle list"

text \<open>
  \<open>RCLContext.__init__\<close> takes its handle from \<open>uuid.uuid4()\<close>: the top 32 bits of a fresh
  128-bit random value. The value drawn is the parameter \<open>uuid\<close>; the domain id comes from
  the configuration.
\<close>

record RCLContext =
  ctx_handle :: int
  is_initialized :: bool
  ctx_nodes :: "(int \<times> NodeHandle) list"
  domain_id :: int

definition RCLContext_init :: "nat \<Rightarrow> int \<Rightarrow> RCLContext" where
  "RCLContext_init uuid dom_id =
     \<lparr>ctx_handle = int (uuid div 2 ^ 96), is_initialized = False, ctx_nodes = [],
      domain_id = dom_id\<rparr>"

text \<open>The per-node lifecycle switches, \<open>{'enable_publishers': .., 'enable_timers': ..}\<close>.\<close>

record NodeControls =
  enable_publishers :: bool
  enable_timers :: bool

text \<open>The operation descriptors queued in \<open>pending_operations\<close>, tagged by their \<open>'type'\<close>.\<close>

datatype rcl_op =
    Op_create_node string "string option"
  | Op_create_publisher "int option" string "qos_arg option"
  | Op_create_subscription "int option" string "qos_arg option" "callback option"
  | Op_create_timer "int option" int "callback option"
  | Op_create_service
  | Op_publish "int option" Message
  | Op_deliver_message Message
  | Op_create_guard_condition "callback option"
  | Op_trigger_guard_condition "int option"
  | Op_other string

datatype phase = Uninitialized | Active

text \<open>
  The state dictionary of \<open>RCLLayer\<close> together with its \<open>timer_manager\<close>. The key
  \<open>'node_controls'\<close> is not among the keys \<open>__init__\<close> creates, so it is optional: \<open>None\<close> is
  the absent key. \<open>ticks\<close> counts the clock readings taken so far.
\<close>

record RCLState =
  rcl_phase :: phase
  rcl_context :: "RCLContext option"
  rcl_nodes :: "(int \<times> NodeHandle) list"
  rcl_publishers :: "(int \<times> PublisherHandle) list"
  rcl_subscriptions :: "(int \<times> SubscriptionHandle) list"
  rcl_timers :: "(int \<times> TimerHandle) list"
  rcl_pending_operations :: "rcl_op list"
  rcl_handle_counter :: int
  rcl_waitset :: WaitSet
  rcl_guard_conditions :: "(int \<times> GuardConditionHandle) list"
  rcl_node_controls :: "(int \<times> NodeControls) list option"
  timer_manager :: TimerManager
  ticks :: nat

definition rcl_initial_state :: RCLState where
  "rcl_initial_state =
     \<lparr>rcl_phase = Uninitialized, rcl_context = None, rcl_nodes = [], rcl_publishers = [],
      rcl_subscriptions = [], rcl_timers = [], rcl_pending_operations = [],
      rcl_handle_counter = 1000,
      rcl_waitset = \<lparr>ws_subscriptions = [], ws_timers = [], ws_guard_conditions = []\<rparr>,
      rcl_guard_conditions = [], rcl_node_controls = None, timer_manager = [], ticks = 0\<rparr>"

definition rcl_next_handle :: "RCLState \<Rightarrow> int \<times> RCLState" where
  "rcl_next_handle s =
     (rcl_handle_counter s, s\<lparr>rcl_handle_counter := rcl_handle_counter s + 1\<rparr>)"

text \<open>What the layer puts on its output ports in one output function call.\<close>

datatype rclcpp_data =
    Node_created int string
  | Publisher_created int string
  | Subscription_created int string
  | Timer_created int
  | Message_delivery int Message
  | Timer_callback int int
  | Guard_condition_created int

record work_item =
  wi_type :: string
  wi_handle :: int
  wi_callback :: "callback option"
  wi_message :: "Message option"

record rcl_output =
  to_rclcpp :: "rclcpp_data option"
  to_rmw :: "Message option"
  to_executor :: "work_item option"

definition no_output :: rcl_output where
  "no_output = \<lparr>to_rclcpp = None, to_rmw = None, to_executor = None\<rparr>"

type_synonym rcl_result = "rcl_output \<times> RCLState \<times> event list"

definition rcl_create_node :: "RCLState \<Rightarrow> string \<Rightarrow> string option \<Rightarrow> py_error + rcl_result" where
  "rcl_create_node s node_name ns_opt =
     (let namespace = (case ns_opt of None \<Rightarrow> ''/'' | Some ns \<Rightarrow> ns);
          (handle, s1) = rcl_next_handle s
      in case rcl_context s1 of
           None \<Rightarrow> Inl (AttributeError ''handle'')
         | Some ctx \<Rightarrow>
             (let node = \<lparr>nh_name = node_name, nh_namespace = namespace, nh_handle_id = handle,
                          nh_context_handle = ctx_handle ctx\<rparr>;
                  s2 = s1\<lparr>rcl_nodes := dict_set handle node (rcl_nodes s1),
                          rcl_context := Some (ctx\<lparr>ctx_nodes := dict_set handle node (ctx_nodes ctx)\<rparr>)\<rparr>
              in Inr (no_output\<lparr>to_rclcpp := Some (Node_created handle node_name)\<rparr>, s2,
                      [(''rcl_node_init'',
                        [(''node_handle'', FStr (hex0x handle)), (''node_name'', FStr node_name),
                         (''namespace'', FStr namespace)])])))"

text \<open>\<open>str(qos)\<close> in the trace: the rendering of a profile is the parameter \<open>str_qos\<close>.\<close>

definition rcl_create_publisher ::
  "(qos_arg option \<Rightarrow> string) \<Rightarrow> RCLState \<Rightarrow> int option \<Rightarrow> string \<Rightarrow> qos_arg option \<Rightarrow> rcl_result" where
  "rcl_create_publisher str_qos s node_handle topic qos =
     (case lookup_opt (rcl_nodes s) node_handle of
        None \<Rightarrow> (no_output, s, [])
      | Some (nh, node) \<Rightarrow>
          (let (handle, s1) = rcl_next_handle s;
               publisher = \<lparr>ph_node_handle = node, ph_topic = topic, ph_qos_profile = qos,
                            ph_handle_id = handle\<rparr>;
               s2 = s1\<lparr>rcl_publishers := dict_set handle publisher (rcl_publishers s1)\<rparr>
           in (no_output\<lparr>to_rclcpp := Some (Publisher_created handle topic)\<rparr>, s2,
               [(''rcl_publisher_init'',
                 [(''publisher_handle'', FStr (hex0x handle)),
                  (''node_handle'', FStr (hex0x nh)),
                  (''topic_name'', FStr topic), (''qos'', FStr (str_qos qos))])])))"

definition rcl_create_subscription ::
  "(qos_arg option \<Rightarrow> string) \<Rightarrow> RCLState \<Rightarrow> int option \<Rightarrow> string \<Rightarrow> qos_arg option \<Rightarrow>
     callback option \<Rightarrow> rcl_result" where
  "rcl_create_subscription str_qos s node_handle topic qos cb =
     (case lookup_opt (rcl_nodes s) node_handle of
        None \<Rightarrow> (no_output, s, [])
      | Some (nh, node) \<Rightarrow>
          (let (handle, s1) = rcl_next_handle s;
               subscription = \<lparr>sh_node_handle = node, sh_topic = topic, sh_qos_profile = qos,
                               sh_handle_id = handle, sh_callback = cb\<rparr>;
               ws = rcl_waitset s1;
               s2 = s1\<lparr>rcl_subscriptions := dict_set handle subscription (rcl_subscriptions s1),
                       rcl_waitset := ws\<lparr>ws_subscriptions := ws_subscriptions ws @ [subscription]\<rparr>\<rparr>
           in (no_output\<lparr>to_rclcpp := Some (Subscription_created handle topic)\<rparr>, s2,
               [(''rcl_subscription_init'',
                 [(''subscription_handle'', FStr (hex0x handle)),
                  (''node_handle'', FStr (hex0x nh)),
                  (''topic_name'', FStr topic), (''qos'', FStr (str_qos qos))])])))"

text \<open>\<open>_create_timer\<close> registers the timer with the manager under \<open>period_ns / 1e9\<close> seconds.\<close>

definition rcl_create_timer ::
  "clock \<Rightarrow> RCLState \<Rightarrow> int option \<Rightarrow> int \<Rightarrow> callback option \<Rightarrow> rcl_result" where
  "rcl_create_timer clk s node_handle period_ns cb =
     (case lookup_opt (rcl_nodes s) node_handle of
        None \<Rightarrow> (no_output, s, [])
      | Some (nh, node) \<Rightarrow>
          (let (handle, s1) = rcl_next_handle s;
               timer = \<lparr>th_node_handle = node, th_period_ns = period_ns, th_callback = cb,
                        th_handle_id = handle\<rparr>;
               (tm, n) = add_timer clk (ticks s1) (timer_manager s1) handle
                           (real_of_int period_ns / 10 ^ 9);
               ws = rcl_waitset s1;
               s2 = s1\<lparr>rcl_timers := dict_set handle timer (rcl_timers s1),
                       timer_manager := tm, ticks := n,
                       rcl_waitset := ws\<lparr>ws_timers := ws_timers ws @ [timer]\<rparr>\<rparr>
           in (no_output\<lparr>to_rclcpp := Some (Timer_created handle)\<rparr>, s2,
               [(''rcl_timer_init'',
                 [(''timer_handle'', FStr (hex0x handle)), (''period_ns'', FInt period_ns)])])))"

definition rcl_create_guard_condition :: "RCLState \<Rightarrow> callback option \<Rightarrow> rcl_result" where
  "rcl_create_guard_condition s cb =
     (let (handle, s1) = rcl_next_handle s;
          gc = \<lparr>gc_handle_id = handle, gc_callback = cb\<rparr>;
          ws = rcl_waitset s1;
          s2 = s1\<lparr>rcl_guard_conditions := dict_set handle gc (rcl_guard_conditions s1),
                  rcl_waitset := ws\<lparr>ws_guard_conditions := ws_guard_conditions ws @ [gc]\<rparr>\<rparr>
      in (no_output\<lparr>to_rclcpp := Some (Guard_condition_created handle)\<rparr>, s2,
          [(''rcl_guard_condition_init'', [(''guard_handle'', FStr (hex0x handle))])]))"

definition rcl_trigger_guard_condition :: "RCLState \<Rightarrow> int option \<Rightarrow> rcl_result" where
  "rcl_trigger_guard_condition s handle =
     (case lookup_opt (rcl_guard_conditions s) handle of
        None \<Rightarrow> (no_output, s, [])
      | Some (h, gc) \<Rightarrow>
          (no_output\<lparr>to_executor := Some \<lparr>wi_type = ''guard_condition'', wi_handle = h,
                                          wi_callback = gc_callback gc, wi_message = None\<rparr>\<rparr>,
           s, [(''rcl_guard_condition_trigger'', [(''guard_handle'', FStr (hex0x h))])]))"

text \<open>
  \<open>_publish_message\<close>. The controls of the publisher's node are read with
  \<open>state.get('node_controls', {}).get(node_handle_id, {both True})\<close>. The scan over the
  subscriptions logs one \<open>rclcpp_take\<close> and collects one delivery per subscription on the same
  topic and the same node handle; the output is the first collected delivery, or else the
  message on the port to the middleware.
\<close>

definition default_controls :: NodeControls where
  "default_controls = \<lparr>enable_publishers = True, enable_timers = True\<rparr>"

definition get_controls :: "RCLState \<Rightarrow> int \<Rightarrow> NodeControls" where
  "get_controls s node_handle_id =
     (case rcl_node_controls s of
        None \<Rightarrow> default_controls
      | Some nc \<Rightarrow> (case map_of nc node_handle_id of None \<Rightarrow> default_controls | Some c \<Rightarrow> c))"

definition intra_matches :: "(int \<times> SubscriptionHandle) list \<Rightarrow> string \<Rightarrow> int \<Rightarrow> int list" where
  "intra_matches subs topic node_handle_id =
     map fst (filter (\<lambda>(h, sub). sh_topic sub = topic
                                \<and> nh_handle_id (sh_node_handle sub) = node_handle_id) subs)"

definition rcl_publish_event :: "Message \<Rightarrow> int \<Rightarrow> PublisherHandle \<Rightarrow> event" where
  "rcl_publish_event message publisher_handle publisher =
     (''rcl_publish'',
      [(''message_id'', FInt (msg_id message)),
       (''publisher_handle'', FStr (hex0x publisher_handle)),
       (''node_handle'', FStr (hex0x (nh_handle_id (ph_node_handle publisher))))])"

definition intra_take_event :: "Message \<Rightarrow> event" where
  "intra_take_event message =
     (''rclcpp_take'',
      [(''message_id'', FInt (msg_id message)), (''topic'', FStr (msg_topic message)),
       (''intra_process'', FInt 1)])"

definition rcl_publish_message :: "RCLState \<Rightarrow> int option \<Rightarrow> Message \<Rightarrow> rcl_result" where
  "rcl_publish_message s publisher_handle message0 =
     (case lookup_opt (rcl_publishers s) publisher_handle of
        None \<Rightarrow> (no_output, s, [])
      | Some (ph, publisher) \<Rightarrow>
          (let message = message0\<lparr>msg_topic := ph_topic publisher\<rparr>;
               ev = rcl_publish_event message ph publisher;
               node_handle_id = nh_handle_id (ph_node_handle publisher);
               controls = get_controls s node_handle_id
           in if \<not> enable_publishers controls then (no_output, s, [ev])
              else
                (let matches = intra_matches (rcl_subscriptions s) (msg_topic message) node_handle_id;
                     intra_outputs = map (\<lambda>sub_h. Message_delivery sub_h message) matches
                 in case intra_outputs of
                      first # rest \<Rightarrow>
                        (no_output\<lparr>to_rclcpp := Some first\<rparr>, s,
                         ev # map (\<lambda>_. intra_take_event message) matches)
                    | [] \<Rightarrow> (no_output\<lparr>to_rmw := Some message\<rparr>, s, [ev]))))"

text \<open>\<open>_deliver_message\<close>: the first subscription on the topic takes the message.\<close>

fun rcl_deliver_message ::
  "RCLState \<Rightarrow> (int \<times> SubscriptionHandle) list \<Rightarrow> Message \<Rightarrow> py_error + rcl_result" where
  "rcl_deliver_message s [] message = Inr (no_output, s, [])"
| "rcl_deliver_message s ((sub_h, subscription) # subs) message =
     (if sh_topic subscription = msg_topic message then
        (case (case sh_callback subscription of None \<Rightarrow> None | Some cb \<Rightarrow> cb message) of
           Some e \<Rightarrow> Inl (CallbackRaised e)
         | None \<Rightarrow>
             Inr (\<lparr>to_rclcpp = Some (Message_delivery sub_h message), to_rmw = None,
                   to_executor = Some \<lparr>wi_type = ''subscription'', wi_handle = sub_h,
                                        wi_callback = sh_callback subscription,
                                        wi_message = Some message\<rparr>\<rparr>,
                  s,
                  [(''rcl_take'',
                    [(''message'', FInt (msg_id message)),
                     (''subscription_handle'', FStr (hex0x sub_h))])]))
      else rcl_deliver_message s subs message)"

text \<open>\<open>_process_operation\<close>. The class has no method \<open>_create_service\<close>, so that branch raises.\<close>

fun rcl_process_operation ::
  "(qos_arg option \<Rightarrow> string) \<Rightarrow> clock \<Rightarrow> RCLState \<Rightarrow> rcl_op \<Rightarrow> py_error + rcl_result" where
  "rcl_process_operation str_qos clk s (Op_create_node node_name ns) = rcl_create_node s node_name ns"
| "rcl_process_operation str_qos clk s (Op_create_publisher nh topic qos) =
     Inr (rcl_create_publisher str_qos s nh topic qos)"
| "rcl_process_operation str_qos clk s (Op_create_subscription nh topic qos cb) =
     Inr (rcl_create_subscription str_qos s nh topic qos cb)"
| "rcl_process_operation str_qos clk s (Op_create_timer nh period_ns cb) =
     Inr (rcl_create_timer clk s nh period_ns cb)"
| "rcl_process_operation str_qos clk s Op_create_service = Inl (AttributeError ''_create_service'')"
| "rcl_process_operation str_qos clk s (Op_publish ph message) =
     Inr (rcl_publish_message s ph message)"
| "rcl_process_operation str_qos clk s (Op_deliver_message message) =
     rcl_deliver_message s (rcl_subscriptions s) message"
| "rcl_process_operation str_qos clk s (Op_create_guard_condition cb) =
     Inr (rcl_create_guard_condition s cb)"
| "rcl_process_operation str_qos clk s (Op_trigger_guard_condition h) =
     Inr (rcl_trigger_guard_condition s h)"
| "rcl_process_operation str_qos clk s (Op_other ty) = Inr (no_output, s, [])"

text \<open>
  The timer check at the end of \<open>outputFnc\<close>: the first expired timer, if it is in the timer
  table, is announced to the client library and to the executor.
\<close>

definition rcl_timer_output :: "clock \<Rightarrow> RCLState \<Rightarrow> rcl_result" where
  "rcl_timer_output clk s =
     (case get_expired_timers clk (ticks s) (timer_manager s) of
        (expired, n) \<Rightarrow>
          (let s1 = s\<lparr>ticks := n\<rparr>
           in case expired of
                [] \<Rightarrow> (no_output, s1, [])
              | timer_handle # rest \<Rightarrow>
                  (case map_of (rcl_timers s1) timer_handle of
                     None \<Rightarrow> (no_output, s1, [])
                   | Some timer \<Rightarrow>
                       (\<lparr>to_rclcpp = Some (Timer_callback timer_handle
                                             (nh_handle_id (th_node_handle timer))),
                         to_rmw = None,
                         to_executor = Some \<lparr>wi_type = ''timer'', wi_handle = timer_handle,
                                              wi_callback = th_callback timer,
                                              wi_message = None\<rparr>\<rparr>,
                        s1,
                        [(''rcl_timer_call'',
                          [(''timer_handle'', FStr (hex0x timer_handle)),
                           (''period_ns'', FInt (th_period_ns timer))])]))))"

text \<open>
  \<open>outputFnc\<close>. \<open>uuid\<close> is the value \<open>uuid4\<close> returns if the context is created in this call,
  \<open>dom_id\<close> the configured domain id.
\<close>

definition rcl_outputFnc ::
  "(qos_arg option \<Rightarrow> string) \<Rightarrow> clock \<Rightarrow> nat \<Rightarrow> int \<Rightarrow> RCLState \<Rightarrow> py_error + rcl_result" where
  "rcl_outputFnc str_qos clk uuid dom_id s =
     (if rcl_phase s = Uninitialized \<and> rcl_context s = None then
        (let ctx = RCLContext_init uuid dom_id;
             s1 = s\<lparr>rcl_context := Some ctx\<rparr>;
             ev = (''rcl_init'',
                   [(''context_handle'', FStr (hex0x (ctx_handle ctx))),
                    (''version'', FStr ''4.1.1'')])
         in case rcl_timer_output clk s1 of (out, s2, evs) \<Rightarrow> Inr (out, s2, ev # evs))
      else
        (case rcl_pending_operations s of
           op # ops \<Rightarrow> rcl_process_operation str_qos clk s op
         | [] \<Rightarrow> Inr (rcl_timer_output clk s)))"

definition rcl_intTransition :: "clock \<Rightarrow> RCLState \<Rightarrow> RCLState" where
  "rcl_intTransition clk s =
     (let s1 = (case (rcl_phase s, rcl_context s) of
                  (Uninitialized, Some ctx) \<Rightarrow>
                    s\<lparr>rcl_context := Some (ctx\<lparr>is_initialized := True\<rparr>), rcl_phase := Active\<rparr>
                | _ \<Rightarrow> s\<lparr>rcl_pending_operations := tl (rcl_pending_operations s)\<rparr>)
      in case update clk (ticks s1) (timer_manager s1) of
           (tm, n) \<Rightarrow> s1\<lparr>timer_manager := tm, ticks := n\<rparr>)"

text \<open>
  \<open>extTransition\<close>. The lifecycle branch looks for the first node named \<open>target_node\<close> and
  then evaluates \<open>self.state['node_controls'].setdefault(handle, ...)\<close>, a subscript on the
  state dictionary: with the key absent it raises \<open>KeyError\<close>.
\<close>

record lifecycle_ctrl =
  target_node :: "string option"
  ctrl_enable_publishers :: "bool option"
  ctrl_enable_timers :: "bool option"

record rcl_inputs =
  from_rclcpp :: "rcl_op option"
  from_rmw :: "Message option"
  control_in :: "lifecycle_ctrl option"

definition apply_ctrl :: "lifecycle_ctrl \<Rightarrow> NodeControls \<Rightarrow> NodeControls" where
  "apply_ctrl ctrl nc =
     (let nc1 = (case ctrl_enable_publishers ctrl of
                   None \<Rightarrow> nc | Some b \<Rightarrow> nc\<lparr>enable_publishers := b\<rparr>)
      in case ctrl_enable_timers ctrl of None \<Rightarrow> nc1 | Some b \<Rightarrow> nc1\<lparr>enable_timers := b\<rparr>)"

definition rcl_lifecycle :: "RCLState \<Rightarrow> lifecycle_ctrl \<Rightarrow> py_error + RCLState" where
  "rcl_lifecycle s ctrl =
     (case find (\<lambda>(handle, node). Some (nh_name node) = target_node ctrl) (rcl_nodes s) of
        None \<Rightarrow> Inr s
      | Some (handle, node) \<Rightarrow>
          (case rcl_node_controls s of
             None \<Rightarrow> Inl (KeyError ''node_controls'')
           | Some ncs \<Rightarrow>
               (let nc = (case map_of ncs handle of None \<Rightarrow> default_controls | Some c \<Rightarrow> c)
                in Inr (s\<lparr>rcl_node_controls := Some (dict_set handle (apply_ctrl ctrl nc) ncs)\<rparr>))))"

definition rcl_extTransition :: "RCLState \<Rightarrow> rcl_inputs \<Rightarrow> py_error + RCLState" where
  "rcl_extTransition s inputs =
     (let s1 = (case from_rclcpp inputs of
                  None \<Rightarrow> s
                | Some cmd \<Rightarrow> s\<lparr>rcl_pending_operations := rcl_pending_operations s @ [cmd]\<rparr>);
          s2 = (case from_rmw inputs of
                  None \<Rightarrow> s1
                | Some msg \<Rightarrow>
                    s1\<lparr>rcl_pending_operations := rcl_pending_operations s1 @ [Op_deliver_message msg]\<rparr>)
      in case control_in inputs of None \<Rightarrow> Inr s2 | Some ctrl \<Rightarrow> rcl_lifecycle s2 ctrl)"

section \<open>Runs of a layer, and the handles they hand out\<close>

text \<open>
  The simulator drives a layer by calling its output function, its internal transition and
  its external transition. A run is any sequence of such calls; it ends early if a call
  raises. Every entity creation of the RCL layer announces the handle it drew from
  \<open>_next_handle\<close> on the port to the client library.
\<close>

datatype rcl_step = Do_output nat | Do_int | Do_ext rcl_inputs

definition rcl_step ::
  "(qos_arg option \<Rightarrow> string) \<Rightarrow> clock \<Rightarrow> int \<Rightarrow> RCLState \<Rightarrow> rcl_step \<Rightarrow> py_error + rcl_result" where
  "rcl_step str_qos clk dom_id s st =
     (case st of
        Do_output uuid \<Rightarrow> rcl_outputFnc str_qos clk uuid dom_id s
      | Do_int \<Rightarrow> Inr (no_output, rcl_intTransition clk s, [])
      | Do_ext inputs \<Rightarrow>
          (case rcl_extTransition s inputs of Inl e \<Rightarrow> Inl e | Inr s' \<Rightarrow> Inr (no_output, s', [])))"

definition created_handle :: "rcl_output \<Rightarrow> int option" where
  "created_handle out =
     (case to_rclcpp out of
        Some (Node_created h n) \<Rightarrow> Some h
      | Some (Publisher_created h t) \<Rightarrow> Some h
      | Some (Subscription_created h t) \<Rightarrow> Some h
      | Some (Timer_created h) \<Rightarrow> Some h
      | Some (Guard_condition_created h) \<Rightarrow> Some h
      | _ \<Rightarrow> None)"

fun rcl_run_handles ::
  "(qos_arg option \<Rightarrow> string) \<Rightarrow> clock \<Rightarrow> int \<Rightarrow> RCLState \<Rightarrow> rcl_step list \<Rightarrow> int list" where
  "rcl_run_handles str_qos clk dom_id s [] = []"
| "rcl_run_handles str_qos clk dom_id s (st # sts) =
     (case rcl_step str_qos clk dom_id s st of
        Inl e \<Rightarrow> []
      | Inr (out, s', evs) \<Rightarrow>
          (case created_handle out of
             None \<Rightarrow> rcl_run_handles str_qos clk dom_id s' sts
           | Some h \<Rightarrow> h # rcl_run_handles str_qos clk dom_id s' sts))"

text \<open>
  The RMW layer returns nothing from a creation; the handle it drew is the \<open>handle\<close> field of
  the \<open>rmw_publisher_init\<close> or \<open>rmw_subscription_init\<close> event it logs first.
\<close>

fun rmw_event_handle :: "event list \<Rightarrow> int option" where
  "rmw_event_handle ((kind, (field, FInt h) # more_fields) # evs) =
     (if field = ''handle'' then Some h else None)"
| "rmw_event_handle evs = None"

fun rmw_run_handles ::
  "enum_values \<Rightarrow> DDSQoSProfile \<Rightarrow> (string \<Rightarrow> string \<Rightarrow> DDSQoSProfile \<Rightarrow> string) \<Rightarrow>
     (string \<Rightarrow> string \<Rightarrow> DDSQoSProfile \<Rightarrow> string) \<Rightarrow> (Message \<Rightarrow> int) \<Rightarrow> RMWState \<Rightarrow> rmw_op list \<Rightarrow>
     int list" where
  "rmw_run_handles ev dd wg rg sz s [] = []"
| "rmw_run_handles ev dd wg rg sz s (op # ops) =
     (case rmw_process_operation ev dd wg rg sz s op of
        Inl e \<Rightarrow> []
      | Inr (s', evs) \<Rightarrow>
          (case rmw_event_handle evs of
             None \<Rightarrow> rmw_run_handles ev dd wg rg sz s' ops
           | Some h \<Rightarrow> h # rmw_run_handles ev dd wg rg sz s' ops))"

text \<open>
  Modelled from the spec: the profile that \<open>DDSQoSProfile()\<close> of \<open>policies\<close> builds with no
  argument, "unspecified fields map to defaults (RELIABLE, VOLATILE, KEEP_LAST, depth=10,
  infinite deadline/lifespan)". It is used only as a concrete value for the fallback parameter.
\<close>

definition dds_default_qos :: DDSQoSProfile where
  "dds_default_qos =
     \<lparr>dds_reliability = DDS_RELIABLE, dds_durability = DDS_VOLATILE, dds_history = DDS_KEEP_LAST,
      dds_depth = 10, dds_deadline = None, dds_lifespan = None, dds_partition = []\<rparr>"

text \<open>
  The bound a single call respects: the counter does not go down, and a handle handed out by
  the call lies between the counter before and the counter after.
\<close>

definition hbound :: "RCLState \<Rightarrow> rcl_result \<Rightarrow> bool" where
  "hbound s r = (case r of (out, s', evs) \<Rightarrow>
      rcl_handle_counter s \<le> rcl_handle_counter s'
      \<and> (case created_handle out of None \<Rightarrow> True
          | Some h \<Rightarrow> rcl_handle_counter s \<le> h \<and> h < rcl_handle_counter s'))"

definition rmw_hbound :: "RMWState \<Rightarrow> rmw_result \<Rightarrow> bool" where
  "rmw_hbound s r = (case r of (s', evs) \<Rightarrow>
      rmw_handle_counter s \<le> rmw_handle_counter s'
      \<and> (case rmw_event_handle evs of None \<Rightarrow> True
          | Some h \<Rightarrow> rmw_handle_counter s \<le> h \<and> h < rmw_handle_counter s'))"

section \<open>Example values: a reliable subscription and a best-effort message\<close>

definition best_effort_qos :: RMWQoSProfile where
  "best_effort_qos = default_rmw_qos\<lparr>reliability := BEST_EFFORT\<rparr>"

definition ex_sub :: RMWSubscription where
  "ex_sub =
     \<lparr>sub_handle = 1000, sub_topic = ''/t'', sub_type_name = ''std_msgs/String'',
      sub_qos = default_rmw_qos, dds_reader_guid = Some ''reader-1'', sub_node_name = ''B'',
      sub_callback = Some (\<lambda>m. None)\<rparr>"

definition ex_rmw_state :: RMWState where
  "ex_rmw_state =
     \<lparr>rmw_initialized = True, rmw_publishers = [], rmw_subscriptions = [(1000, ex_sub)],
      rmw_pending_operations = [], rmw_handle_counter = 1001\<rparr>"

definition ex_msg7 :: Message where
  "ex_msg7 = \<lparr>msg_id = 7, msg_topic = ''/t'', msg_qos_profile = Some best_effort_qos\<rparr>"

definition ex_dds_data :: dds_in where
  "ex_dds_data = DDSDict \<lparr>d_type = None, d_topic = Some ''/t'', d_data = Some ex_msg7, d_message = None\<rparr>"

definition ex_dds_response :: dds_in where
  "ex_dds_response = DDSDict \<lparr>d_type = Some ''data'', d_topic = Some ''/t'', d_data = None, d_message = Some ex_msg7\<rparr>"

section \<open>Example values: one node with a publisher and two subscriptions on one topic\<close>

definition ex_node :: NodeHandle where
  "ex_node = \<lparr>nh_name = ''N'', nh_namespace = ''/'', nh_handle_id = 1000, nh_context_handle = 7\<rparr>"

definition ex_publisher :: PublisherHandle where
  "ex_publisher =
     \<lparr>ph_node_handle = ex_node, ph_topic = ''/t'', ph_qos_profile = None, ph_handle_id = 1001\<rparr>"

definition ex_subscription :: "int \<Rightarrow> SubscriptionHandle" where
  "ex_subscription h =
     \<lparr>sh_node_handle = ex_node, sh_topic = ''/t'', sh_qos_profile = None, sh_handle_id = h,
      sh_callback = None\<rparr>"

definition ex_rcl_state :: RCLState where
  "ex_rcl_state =
     rcl_initial_state
       \<lparr>rcl_phase := Active,
        rcl_context := Some ((RCLContext_init 0 0)\<lparr>is_initialized := True,
                                                    ctx_nodes := [(1000, ex_node)]\<rparr>),
        rcl_nodes := [(1000, ex_node)],
        rcl_publishers := [(1001, ex_publisher)],
        rcl_subscriptions := [(1002, ex_subscription 1002), (1003, ex_subscription 1003)],
        rcl_handle_counter := 1004\<rparr>"

definition ex_msg1 :: Message where
  "ex_msg1 = \<lparr>msg_id = 1, msg_topic = ''/t'', msg_qos_profile = None\<rparr>"

text \<open>The same state after the node's publishers have been switched off.\<close>

definition ex_rcl_disabled :: RCLState where
  "ex_rcl_disabled =
     ex_rcl_state\<lparr>rcl_node_controls :=
                    Some [(1000, \<lparr>enable_publishers = False, enable_timers = True\<rparr>)]\<rparr>"

text \<open>The deliveries of a publish: the subscription handles on the port to the client library.\<close>

definition delivered_to :: "rcl_output \<Rightarrow> int list" where
  "delivered_to out =
     (case to_rclcpp out of Some (Message_delivery h m) \<Rightarrow> [h] | _ \<Rightarrow> [])"

section \<open>Runs of the timer manager\<close>




section \<open>Size estimation (abstract_serialization.py)\<close>





section \<open>The trace of a run, and the sources of randomness\<close>


text \<open>
  \<open>EnhancedROS2TraceLogger._next_handle\<close> (tracing_fixes.py): the counter advances by
  \<open>random.randint(0x1000, 0xFFFFF)\<close>, here the parameter \<open>draw\<close>, and the new counter is
  rendered in hexadecimal. No function of the source seeds the generator.
\<close>

definition enhanced_initial_counter :: int where
  "enhanced_initial_counter = 0xAAAAE0000000"


section \<open>The RCLCPP layer (rclcpp_layer.py)\<close>

































chapter \<open>Theorems\<close>

section \<open>Handles\<close>

lemma created_handle_simps [simp]:
  "created_handle no_output = None"
  "created_handle (no_output\<lparr>to_rclcpp := Some (Node_created h n)\<rparr>) = Some h"
  "created_handle (no_output\<lparr>to_rclcpp := Some (Publisher_created h t)\<rparr>) = Some h"
  "created_handle (no_output\<lparr>to_rclcpp := Some (Subscription_created h t)\<rparr>) = Some h"
  "created_handle (no_output\<lparr>to_rclcpp := Some (Timer_created h)\<rparr>) = Some h"
  "created_handle (no_output\<lparr>to_rclcpp := Some (Guard_condition_created h)\<rparr>) = Some h"
  "created_handle (no_output\<lparr>to_rclcpp := Some (Message_delivery h m)\<rparr>) = None"
  "created_handle (no_output\<lparr>to_rmw := x\<rparr>) = None"
  "created_handle (no_output\<lparr>to_executor := y\<rparr>) = None"
  by (simp_all add: created_handle_def no_output_def)

lemma hb_id [simp]: "hbound s (no_output, s, evs)"
  by (simp add: hbound_def)

lemma hb_create_node: "rcl_create_node s n ns = Inr r \<Longrightarrow> hbound s r"
  by (auto simp: rcl_create_node_def rcl_next_handle_def hbound_def Let_def split: option.splits)

lemma hb_create_publisher: "hbound s (rcl_create_publisher q s nh t qos)"
  by (auto simp: rcl_create_publisher_def rcl_next_handle_def hbound_def Let_def split: option.splits)

lemma hb_create_subscription: "hbound s (rcl_create_subscription q s nh t qos cb)"
  by (auto simp: rcl_create_subscription_def rcl_next_handle_def hbound_def Let_def split: option.splits)

lemma hb_create_timer: "hbound s (rcl_create_timer clk s nh p cb)"
  by (auto simp: rcl_create_timer_def rcl_next_handle_def hbound_def Let_def split: option.splits prod.splits)

lemma hb_create_gc: "hbound s (rcl_create_guard_condition s cb)"
  by (auto simp: rcl_create_guard_condition_def rcl_next_handle_def hbound_def Let_def split: option.splits)

lemma hb_trigger_gc: "hbound s (rcl_trigger_guard_condition s h)"
  by (auto simp: rcl_trigger_guard_condition_def hbound_def Let_def split: option.splits)

lemma hb_publish: "hbound s (rcl_publish_message s ph m)"
  by (auto simp: rcl_publish_message_def hbound_def Let_def split: option.splits list.splits)

lemma hb_deliver: "rcl_deliver_message s subs m = Inr r \<Longrightarrow> hbound s r"
  by (induction subs) (auto simp: hbound_def created_handle_def no_output_def split: if_splits option.splits)

lemma hb_process: "rcl_process_operation q clk s op = Inr r \<Longrightarrow> hbound s r"
  by (cases op) (auto simp: hb_create_node hb_create_publisher hb_create_subscription hb_create_timer
      hb_create_gc hb_trigger_gc hb_publish hb_deliver) 

lemma hb_timer_output: "hbound s (rcl_timer_output clk s)"
  by (auto simp: rcl_timer_output_def hbound_def created_handle_def no_output_def Let_def split: prod.splits list.splits option.splits)

lemma hb_ticks: "hbound (s\<lparr>rcl_context := c\<rparr>) r \<Longrightarrow> hbound s r"
  by (auto simp: hbound_def split: option.splits)

lemma hb_evs: "hbound s (out, s', evs) \<Longrightarrow> hbound s (out, s', evs')"
  by (auto simp: hbound_def split: option.splits)

lemma hb_output: 
  assumes "rcl_outputFnc q clk uuid d s = Inr r" shows "hbound s r"
proof (cases "rcl_phase s = Uninitialized \<and> rcl_context s = None")
  case True
  obtain out s2 evs where t: "rcl_timer_output clk (s\<lparr>rcl_context := Some (RCLContext_init uuid d)\<rparr>) = (out, s2, evs)"
    by (metis prod_cases3)
  have "hbound (s\<lparr>rcl_context := Some (RCLContext_init uuid d)\<rparr>) (out, s2, evs)"
    using hb_timer_output[of "s\<lparr>rcl_context := Some (RCLContext_init uuid d)\<rparr>" clk] t by simp
  then have "hbound s (out, s2, (''rcl_init'',
                   [(''context_handle'', FStr (hex0x (ctx_handle (RCLContext_init uuid d)))),
                    (''version'', FStr ''4.1.1'')]) # evs)"
    by (rule hb_evs[OF hb_ticks])
  then show ?thesis using assms True t by (simp add: rcl_outputFnc_def Let_def)
next
  case False
  then show ?thesis using assms
    by (auto simp: rcl_outputFnc_def hb_timer_output split: list.splits dest: hb_process)
qed

lemma hb_int: "hbound s (no_output, rcl_intTransition clk s, [])"
  by (auto simp: hbound_def rcl_intTransition_def Let_def split: prod.splits phase.splits option.splits)

lemma hb_ext: "rcl_extTransition s i = Inr s' \<Longrightarrow> hbound s (no_output, s', [])"
  by (auto simp: hbound_def rcl_extTransition_def rcl_lifecycle_def Let_def split: prod.splits option.splits)

lemma rcl_step_counter: "rcl_step q clk d s st = Inr r \<Longrightarrow> hbound s r"
  by (cases st) (auto simp: rcl_step_def hb_int dest: hb_output hb_ext split: sum.splits)

lemma rcl_run_handles_bounds:
  "sorted_wrt (<) (rcl_run_handles q clk d s sts) \<and> (\<forall>h \<in> set (rcl_run_handles q clk d s sts). rcl_handle_counter s \<le> h)"
proof (induction sts arbitrary: s)
  case Nil
  then show ?case by simp
next
  case (Cons st sts)
  show ?case
  proof (cases "rcl_step q clk d s st")
    case (Inl e)
    then show ?thesis by simp
  next
    case (Inr r)
    obtain out s' evs where r: "r = (out, s', evs)" by (metis prod_cases3)
    have hb: "hbound s (out, s', evs)" using rcl_step_counter[OF Inr] r by simp
    note IH = Cons.IH[of s']
    show ?thesis using Inr r hb IH
      by (cases "created_handle out") (fastforce simp: hbound_def)+
  qed
qed


lemma rmw_hb_process: "rmw_process_operation ev dd wg rg sz s op = Inr r \<Longrightarrow> rmw_hbound s r"
  by (cases op)
     (auto simp: rmw_hbound_def rmw_create_publisher_def rmw_create_subscription_def
        rmw_publish_def rmw_next_handle_def Let_def split: sum.splits option.splits prod.splits)

lemma rmw_run_handles_bounds:
  "sorted_wrt (<) (rmw_run_handles ev dd wg rg sz s ops)
   \<and> (\<forall>h \<in> set (rmw_run_handles ev dd wg rg sz s ops). rmw_handle_counter s \<le> h)"
proof (induction ops arbitrary: s)
  case Nil
  then show ?case by simp
next
  case (Cons op ops)
  show ?case
  proof (cases "rmw_process_operation ev dd wg rg sz s op")
    case (Inl e)
    then show ?thesis by simp
  next
    case (Inr r)
    obtain s' evs where r: "r = (s', evs)" by (cases r)
    have hb: "rmw_hbound s (s', evs)" using rmw_hb_process[OF Inr] r by simp
    note IH = Cons.IH[of s']
    show ?thesis using Inr r hb IH
      by (cases "rmw_event_handle evs") (fastforce simp: rmw_hbound_def)+
  qed
qed

text \<open>
  Claim C4. Within each layer the handle generator is strictly increasing: over any run of
  the RCL layer (any sequence of output-function calls, internal and external transitions)
  and over any sequence of operations of the RMW layer, the handles handed out, in the order
  they are handed out, form a strictly increasing list, so no two of them are equal and none
  is handed out twice; and a call of \<open>_next_handle\<close> directly after another returns a
  strictly greater value.
\<close>

theorem next_handle_strictly_increasing:
  "sorted_wrt (<) (rcl_run_handles str_qos clk dom_id s steps)
   \<and> distinct (rcl_run_handles str_qos clk dom_id s steps)
   \<and> sorted_wrt (<) (rmw_run_handles ev dd wg rg sz r ops)
   \<and> distinct (rmw_run_handles ev dd wg rg sz r ops)
   \<and> fst (rcl_next_handle s) < fst (rcl_next_handle (snd (rcl_next_handle s)))
   \<and> fst (rmw_next_handle r) < fst (rmw_next_handle (snd (rmw_next_handle r)))"
proof -
  have a: "sorted_wrt (<) (rcl_run_handles str_qos clk dom_id s steps)"
    using rcl_run_handles_bounds by blast
  have b: "sorted_wrt (<) (rmw_run_handles ev dd wg rg sz r ops)"
    using rmw_run_handles_bounds by blast
  from a have a': "distinct (rcl_run_handles str_qos clk dom_id s steps)"
    using strict_sorted_iff by blast
  from b have b': "distinct (rmw_run_handles ev dd wg rg sz r ops)"
    using strict_sorted_iff by blast
  show ?thesis using a a' b b' by (simp add: rcl_next_handle_def rmw_next_handle_def)
qed

theorem next_handle_strictly_increasing_witness:
  "rcl_run_handles (\<lambda>q. []) (\<lambda>n. real n) 0 rcl_initial_state
      [Do_ext \<lparr>from_rclcpp = Some (Op_create_node ''N'' None), from_rmw = None, control_in = None\<rparr>,
       Do_output 0, Do_int, Do_output 0, Do_int,
       Do_ext \<lparr>from_rclcpp = Some (Op_create_publisher (Some 1000) ''/t'' None), from_rmw = None, control_in = None\<rparr>,
       Do_output 0, Do_int,
       Do_ext \<lparr>from_rclcpp = Some (Op_create_timer (Some 1000) 5 None), from_rmw = None, control_in = None\<rparr>,
       Do_output 0, Do_int] = [1000, 1001, 1002]
   \<and> rmw_run_handles keyed_values dds_default_qos (\<lambda>t ty q. ''w'') (\<lambda>t ty q. ''r'') (\<lambda>m. 0) rmw_initial_state
      [Rmw_create_publisher ''/t'' None QosOther None,
       Rmw_create_subscription ''/t'' None QosOther None None] = [1000, 1001]"
  using next_handle_strictly_increasing[of "\<lambda>q. []" "\<lambda>n. real n" 0 rcl_initial_state
      "[Do_ext \<lparr>from_rclcpp = Some (Op_create_node ''N'' None), from_rmw = None, control_in = None\<rparr>,
       Do_output 0, Do_int, Do_output 0, Do_int,
       Do_ext \<lparr>from_rclcpp = Some (Op_create_publisher (Some 1000) ''/t'' None), from_rmw = None, control_in = None\<rparr>,
       Do_output 0, Do_int,
       Do_ext \<lparr>from_rclcpp = Some (Op_create_timer (Some 1000) 5 None), from_rmw = None, control_in = None\<rparr>,
       Do_output 0, Do_int]" keyed_values dds_default_qos "\<lambda>t ty q. ''w''" "\<lambda>t ty q. ''r''" "\<lambda>m. 0" rmw_initial_state
      "[Rmw_create_publisher ''/t'' None QosOther None,
       Rmw_create_subscription ''/t'' None QosOther None None]"]
  by (simp add: rcl_step_def rcl_outputFnc_def rcl_initial_state_def rcl_extTransition_def
      rcl_intTransition_def rcl_timer_output_def RCLContext_init_def update_def
      rcl_create_node_def rcl_create_publisher_def rcl_create_timer_def rcl_next_handle_def
      lookup_opt_def no_output_def created_handle_def add_timer_def Timer_init_def is_ready_def trigger_def
      rmw_initial_state_def rmw_create_publisher_def rmw_create_subscription_def rmw_next_handle_def
      coerce_to_rmw_qos_def coerce_to_dds_qos_def to_dds_qos_def default_rmw_qos_def ms_to_ns_def
      keyed_values_def dict_get_def Let_def)

section \<open>Delivery gating at the middleware\<close>

lemmas ex_defs = best_effort_qos_def ex_sub_def ex_rmw_state_def ex_msg7_def ex_dds_data_def ex_dds_response_def
  default_rmw_qos_def

lemma on_dds_data_available_kinds:
  "(k, fs) \<in> set (fst (on_dds_data_available sub m))
   \<Longrightarrow> k \<in> {''rmw_take'', ''rcl_take'', ''rmw_subscription_callback_error''}"
  by (auto simp: on_dds_data_available_def take_event_def split: option.splits)

lemma on_dds_data_available_calls:
  "snd (on_dds_data_available sub m) = (if sub_callback sub = None then [] else [(sub_handle sub, m)])"
  by (auto simp: on_dds_data_available_def split: option.splits)

lemma handle_dds_data_kinds:
  "(k, fs) \<in> set (fst (handle_dds_data subs topic m))
   \<Longrightarrow> k \<in> {''rmw_take'', ''rcl_take'', ''rmw_subscription_callback_error''}"
proof (induction subs)
  case Nil
  then show ?case by simp
next
  case (Cons p subs)
  obtain h sub where p: "p = (h, sub)" by (cases p)
  obtain e1 c1 where a: "on_dds_data_available sub m = (e1, c1)" by (cases "on_dds_data_available sub m")
  obtain e2 c2 where b: "handle_dds_data subs topic m = (e2, c2)" by (cases "handle_dds_data subs topic m")
  show ?case
  proof (cases "sub_topic sub = topic")
    case True
    with Cons.prems p a b have "(k, fs) \<in> set e1 \<or> (k, fs) \<in> set e2" by auto
    then show ?thesis
      using on_dds_data_available_kinds[of k fs sub m] a Cons.IH b by auto
  next
    case False
    with Cons p show ?thesis by simp
  qed
qed

lemma handle_dds_data_calls:
  "snd (handle_dds_data subs topic m) =
     map (\<lambda>p. (sub_handle (snd p), m))
       (filter (\<lambda>p. sub_topic (snd p) = topic \<and> sub_callback (snd p) \<noteq> None) subs)"
proof (induction subs)
  case Nil
  then show ?case by simp
next
  case (Cons p subs)
  obtain h sub where p: "p = (h, sub)" by (cases p)
  obtain e1 c1 where a: "on_dds_data_available sub m = (e1, c1)" by (cases "on_dds_data_available sub m")
  obtain e2 c2 where b: "handle_dds_data subs topic m = (e2, c2)" by (cases "handle_dds_data subs topic m")
  have c1: "c1 = (if sub_callback sub = None then [] else [(sub_handle sub, m)])"
    using on_dds_data_available_calls[of sub m] a by simp
  show ?case using Cons.IH p a b c1 by simp
qed

lemma response_loop_calls:
  "handle_dds_response_loop subs topic (Some msg) = Inr (evs, calls) \<Longrightarrow>
   calls = map (\<lambda>p. (sub_handle (snd p), msg))
           (filter (\<lambda>p. sub_topic (snd p) = topic \<and> sub_callback (snd p) \<noteq> None
                      \<and> fst (check_qos_delivery msg (snd p))) subs)"
proof (induction subs arbitrary: evs calls)
  case Nil
  then show ?case by simp
next
  case (Cons p subs)
  obtain h sub where p: "p = (h, sub)" by (cases p)
  show ?case
  proof (cases "sub_topic sub = topic")
    case False
    then show ?thesis using Cons p by simp
  next
    case True
    obtain ok reason where c: "check_qos_delivery msg sub = (ok, reason)" by (cases "check_qos_delivery msg sub")
    obtain e2 c2 where r: "handle_dds_response_loop subs topic (Some msg) = Inr (e2, c2)"
      using Cons.prems p True c by (auto split: sum.splits prod.splits if_splits)
    have c2: "c2 = map (\<lambda>p. (sub_handle (snd p), msg))
           (filter (\<lambda>p. sub_topic (snd p) = topic \<and> sub_callback (snd p) \<noteq> None
                      \<and> fst (check_qos_delivery msg (snd p))) subs)"
      using Cons.IH[OF r] .
    have "calls = (if ok then snd (on_dds_data_available sub msg) else []) @ c2"
      using Cons.prems p True c r by (auto split: prod.splits)
    then show ?thesis using c2 p True c by (simp add: on_dds_data_available_calls)
  qed
qed

lemma response_loop_rejects:
  "handle_dds_response_loop subs topic (Some msg) = Inr (evs, calls) \<Longrightarrow>
   (h, sub) \<in> set subs \<Longrightarrow> sub_topic sub = topic \<Longrightarrow> check_qos_delivery msg sub = (False, reason)
   \<Longrightarrow> qos_incompatible_event topic reason \<in> set evs"
proof (induction subs arbitrary: evs calls)
  case Nil
  then show ?case by simp
next
  case (Cons p subs)
  obtain h' sub' where p: "p = (h', sub')" by (cases p)
  show ?case
  proof (cases "sub_topic sub' = topic")
    case False
    then show ?thesis using Cons p by auto
  next
    case True
    obtain ok r' where c: "check_qos_delivery msg sub' = (ok, r')" by (cases "check_qos_delivery msg sub'")
    obtain e2 c2 where r: "handle_dds_response_loop subs topic (Some msg) = Inr (e2, c2)"
      using Cons.prems(1) p True c by (auto split: sum.splits prod.splits if_splits)
    have evs: "evs = (if ok then fst (on_dds_data_available sub' msg) else [qos_incompatible_event topic r']) @ e2"
      using Cons.prems(1) p True c r by (auto split: prod.splits)
    show ?thesis
    proof (cases "(h, sub) = (h', sub')")
      case True
      then show ?thesis using evs c Cons.prems(4) by simp
    next
      case False
      then have "(h, sub) \<in> set subs" using Cons.prems(2) p by auto
      then have "qos_incompatible_event topic reason \<in> set e2"
        using Cons.IH[OF r _ Cons.prems(3) Cons.prems(4)] by simp
      then show ?thesis using evs by simp
    qed
  qed
qed

lemma check_reliability_mismatch:
  "msg_qos_profile msg = Some pq \<Longrightarrow> reliability (sub_qos sub) = RELIABLE \<Longrightarrow> reliability pq = BEST_EFFORT
   \<Longrightarrow> check_qos_delivery msg sub = (False, ''reliability mismatch'')"
  by (simp add: check_qos_delivery_def)

text \<open>
  Claim C1. A message from a best-effort publisher that reaches a reliable subscription is to
  be rejected with the reason "reliability mismatch", with a QoS-incompatibility event and no
  callback invocation. The check \<open>_check_qos_delivery\<close> decides so, and the response path
  \<open>_handle_dds_response\<close> obeys it (lemmas \<open>response_loop_calls\<close>, \<open>response_loop_rejects\<close>);
  but a dictionary of the participant's shape, with the keys \<open>'data'\<close> and \<open>'topic'\<close>, is
  routed to \<open>_handle_dds_data\<close>, which never consults the check: at the input below the
  callback of the reliable subscription is invoked on the best-effort message and no
  incompatibility event is logged, while the same message on the response path is rejected.
\<close>

theorem dds_data_path_skips_qos_gate:
  "reliability (sub_qos ex_sub) = RELIABLE
   \<and> map_option reliability (msg_qos_profile ex_msg7) = Some BEST_EFFORT
   \<and> check_qos_delivery ex_msg7 ex_sub = (False, ''reliability mismatch'')
   \<and> (case rmw_dds_in ex_rmw_state ex_dds_data of
        Inl e \<Rightarrow> False
      | Inr (evs, calls) \<Rightarrow>
          kinds evs = [''rmw_take'', ''rcl_take'', ''rcl_take'']
          \<and> ''rmw_qos_incompatible'' \<notin> set (kinds evs)
          \<and> calls = [(1000, ex_msg7)])
   \<and> rmw_dds_in ex_rmw_state ex_dds_response =
        Inr ([qos_incompatible_event ''/t'' ''reliability mismatch''], [])"
  by (simp add: ex_defs rmw_dds_in_def handle_dds_response_def check_qos_delivery_def
      on_dds_data_available_def take_event_def kinds_def)

section \<open>Publishing through the RCL layer\<close>

lemmas ex_rcl_defs = ex_node_def ex_publisher_def ex_subscription_def ex_rcl_state_def
  ex_msg1_def ex_rcl_disabled_def rcl_initial_state_def RCLContext_init_def

text \<open>
  A publish never puts something on both ports: an intra-process delivery excludes the
  forward to the middleware.
\<close>

lemma publish_never_both:
  "rcl_publish_message s ph m = (out, s', evs) \<Longrightarrow> to_rclcpp out = None \<or> to_rmw out = None"
  by (auto simp: rcl_publish_message_def no_output_def Let_def
      split: option.splits prod.splits if_splits list.splits)

lemma publish_state_unchanged:
  "rcl_publish_message s ph m = (out, s', evs) \<Longrightarrow> s' = s"
  by (auto simp: rcl_publish_message_def Let_def
      split: option.splits prod.splits if_splits list.splits)

text \<open>
  With publishers enabled, the message goes to the middleware exactly when no subscription
  shares topic and node with the publisher, and otherwise to the first such subscription.
\<close>

lemma publish_enabled_output:
  assumes "lookup_opt (rcl_publishers s) ph = Some (h, publisher)"
    and "enable_publishers (get_controls s (nh_handle_id (ph_node_handle publisher)))"
  shows "fst (rcl_publish_message s ph m) =
     (case intra_matches (rcl_subscriptions s) (ph_topic publisher)
             (nh_handle_id (ph_node_handle publisher)) of
        [] \<Rightarrow> no_output\<lparr>to_rmw := Some (m\<lparr>msg_topic := ph_topic publisher\<rparr>)\<rparr>
      | sub_h # rest \<Rightarrow>
          no_output\<lparr>to_rclcpp := Some (Message_delivery sub_h (m\<lparr>msg_topic := ph_topic publisher\<rparr>))\<rparr>)"
  using assms
  by (auto simp: rcl_publish_message_def Let_def split: list.splits)

text \<open>
  Claim C2. A publish is either delivered intra-process or forwarded to the middleware, never
  both (lemma \<open>publish_never_both\<close>), and the intra-process path is to deliver to every
  co-located subscription on the topic. At the input below two subscriptions of the
  publisher's node are on the publisher's topic: the scan logs an \<open>rclcpp_take\<close> for each, but
  the output holds the delivery to the first one only, and the second subscription gets
  nothing.
\<close>

theorem intra_process_delivers_first_match_only:
  "intra_matches (rcl_subscriptions ex_rcl_state) ''/t'' 1000 = [1002, 1003]
   \<and> (case rcl_publish_message ex_rcl_state (Some 1001) ex_msg1 of
        (out, s', evs) \<Rightarrow>
          to_rclcpp out = Some (Message_delivery 1002 ex_msg1)
          \<and> delivered_to out = [1002]
          \<and> to_rmw out = None
          \<and> kinds evs = [''rcl_publish'', ''rclcpp_take'', ''rclcpp_take''])"
  by (simp add: ex_rcl_defs rcl_publish_message_def lookup_opt_def get_controls_def
      default_controls_def intra_matches_def no_output_def delivered_to_def kinds_def
      rcl_publish_event_def intra_take_event_def)

text \<open>
  The lifecycle branch of \<open>extTransition\<close> subscripts the state dictionary with the key
  \<open>'node_controls'\<close>, which \<open>__init__\<close> never creates and no transition adds: a lifecycle
  command that names an existing node raises \<open>KeyError\<close>.
\<close>

lemma lifecycle_raises_without_controls:
  assumes "rcl_node_controls s = None" and "(h, node) \<in> set (rcl_nodes s)"
    and "target_node ctrl = Some (nh_name node)"
  shows "rcl_lifecycle s ctrl = Inl (KeyError ''node_controls'')"
proof -
  have "find (\<lambda>(handle, node). Some (nh_name node) = target_node ctrl) (rcl_nodes s) \<noteq> None"
    using assms(2,3) by (auto simp: find_None_iff)
  then show ?thesis using assms(1) by (auto simp: rcl_lifecycle_def split: option.splits)
qed

lemma step_keeps_controls_absent:
  assumes "rcl_step str_qos clk dom_id s st = Inr (out, s', evs)" and "rcl_node_controls s = None"
  shows "rcl_node_controls s' = None"
proof (cases st)
  case (Do_output uuid)
  have d: "rcl_deliver_message s0 subs m = Inr (o1, s1, e1) \<Longrightarrow> s1 = s0" for s0 subs m o1 s1 e1
    by (induction subs) (auto split: if_splits option.splits)
  have p: "rcl_process_operation str_qos clk s0 op = Inr (o1, s1, e1)
           \<Longrightarrow> rcl_node_controls s1 = rcl_node_controls s0" for s0 op o1 s1 e1
    by (cases op)
       (auto simp: rcl_create_node_def rcl_create_publisher_def rcl_create_subscription_def
          rcl_create_timer_def rcl_create_guard_condition_def rcl_trigger_guard_condition_def
          rcl_publish_message_def rcl_next_handle_def Let_def dest: d
          split: option.splits prod.splits if_splits list.splits)
  have t: "rcl_timer_output clk s0 = (o1, s1, e1)
           \<Longrightarrow> rcl_node_controls s1 = rcl_node_controls s0" for s0 o1 s1 e1
    by (auto simp: rcl_timer_output_def Let_def split: prod.splits list.splits option.splits)
  show ?thesis using assms Do_output
    by (auto simp: rcl_step_def rcl_outputFnc_def Let_def dest: p t
        split: if_splits prod.splits list.splits)
next
  case Do_int
  then show ?thesis using assms
    by (auto simp: rcl_step_def rcl_intTransition_def Let_def
        split: prod.splits phase.splits option.splits)
next
  case (Do_ext inputs)
  then show ?thesis using assms
    by (auto simp: rcl_step_def rcl_extTransition_def rcl_lifecycle_def Let_def
        split: sum.splits option.splits prod.splits)
qed




section \<open>Timers\<close>

























section \<open>QoS coercion\<close>








section \<open>Size estimation\<close>







section \<open>Determinism of the trace\<close>














section \<open>Entity creation before the node has a handle\<close>









text \<open>A creation forwarded with no node handle is dropped by the RCL layer.\<close>

lemma rcl_drops_creation_without_node:
  "rcl_create_publisher str_qos r None topic qos = (no_output, r, [])
   \<and> rcl_create_subscription str_qos r None topic qos cb = (no_output, r, [])"
  by (simp add: rcl_create_publisher_def rcl_create_subscription_def lookup_opt_def)





end
